theory Spec2Isabelle
  imports Complex_Main "HOL-Library.Multiset" "HOL-Library.AList"
begin

section \<open>Numbers of the JavaScript runtime\<close>

text \<open>
  The application is TypeScript; every quantity, amount and stock level is a JavaScript
  \<^verbatim>\<open>number\<close>. The model takes a finite number to be an exact rational, so the rounding
  error of IEEE-754 doubles is outside the model, and keeps the one non-finite value the
  ledger code can produce from well-formed JSON: \<open>NaN\<close>, which is what \<^verbatim>\<open>x + undefined\<close>
  evaluates to when a record lacks the field that is read. Addition and subtraction
  propagate \<open>NaN\<close>, as they do in JavaScript.
\<close>

datatype jsnum = Num rat | NaN

instantiation jsnum :: comm_monoid_add
begin

definition zero_jsnum :: jsnum where
  "zero_jsnum = Num 0"

fun plus_jsnum :: "jsnum \<Rightarrow> jsnum \<Rightarrow> jsnum" where
  "plus_jsnum (Num a) (Num b) = Num (a + b)"
| "plus_jsnum _ _ = NaN"

instance
proof
  fix x y z :: jsnum
  show "0 + x = x"
    unfolding zero_jsnum_def by (cases x) auto
  show "x + y = y + x"
  proof (cases x)
    case (Num r)
    then show ?thesis by (cases y) auto
  next
    case NaN
    then show ?thesis by (cases y) auto
  qed
  show "x + y + z = x + (y + z)"
  proof (cases x)
    case (Num r)
    then show ?thesis by (cases y; cases z) auto
  next
    case NaN
    then show ?thesis by simp
  qed
qed

end

instantiation jsnum :: minus
begin

fun minus_jsnum :: "jsnum \<Rightarrow> jsnum \<Rightarrow> jsnum" where
  "minus_jsnum (Num a) (Num b) = Num (a - b)"
| "minus_jsnum _ _ = NaN"

instance ..

end

text \<open>\<^verbatim>\<open>ToNumber\<close> of a property read: an absent property is \<^verbatim>\<open>undefined\<close>, hence \<open>NaN\<close>.\<close>

fun toNumber :: "rat option \<Rightarrow> jsnum" where
  "toNumber (Some a) = Num a"
| "toNumber None = NaN"

text \<open>\<^verbatim>\<open>Math.round\<close>: the nearest integer, a tie going up.\<close>

definition mathRound :: "rat \<Rightarrow> int" where
  "mathRound x = \<lfloor>x + 1 / 2\<rfloor>"

text \<open>
  Two services of the runtime are parameters of the ledger: \<^verbatim>\<open>String.prototype.toLowerCase\<close>
  and \<^verbatim>\<open>new Date(s).getTime()\<close>.
\<close>

record jsRuntime =
  toLowerCase :: "string \<Rightarrow> string"
  getTime :: "string \<Rightarrow> int"

definition toLowerChar :: "char \<Rightarrow> char" where
  "toLowerChar c =
     (case map_of (zip ''ABCDEFGHIJKLMNOPQRSTUVWXYZ'' ''abcdefghijklmnopqrstuvwxyz'') c of
        Some d \<Rightarrow> d
      | None \<Rightarrow> c)"

text \<open>A runtime for concrete runs: ASCII lower-casing, and dates given as a count of digits.\<close>

definition asciiRuntime :: jsRuntime where
  "asciiRuntime = \<lparr>toLowerCase = map toLowerChar, getTime = (\<lambda>s. int (length s))\<rparr>"


section \<open>The party ledger (PartyManager)\<close>

subsection \<open>Records read from the persistence collaborator\<close>

text \<open>
  Only the fields that \<^verbatim>\<open>PartyManager\<close> reads are kept. The interfaces declare every amount
  as \<^verbatim>\<open>number\<close>; the value arrives as JSON, so the model lets the property be absent
  (\<open>None\<close>), which is the malformed record the ledger may meet at run time.
\<close>

datatype apiError = ApiError

record saleInvoice =
  id_sale :: string
  partyName :: string
  phoneNumber :: string
  totalAmount :: "rat option"
  date :: string
  invoiceNo :: string

record purchaseBill =
  id_purchase :: string
  partyName :: string
  phoneNumber :: string
  totalAmount :: "rat option"
  date :: string
  billNo :: string

datatype paymentType = payment_in | payment_out

record payment =
  id_payment :: string
  paymentNo :: string
  type_payment :: paymentType
  partyName :: string
  phoneNumber :: string
  amount :: "rat option"
  date :: string

datatype transactionType = invoice | bill | paymentIn | paymentOut

record partyTransaction =
  id_tx :: string
  partyId :: string
  type_tx :: transactionType
  amount :: "rat option"
  date :: string
  reference :: string

text \<open>
  The three reads \<^verbatim>\<open>SaleApiService.getSales()\<close>, \<^verbatim>\<open>PurchaseApiService.getPurchases()\<close> and
  \<^verbatim>\<open>PaymentApiService.getPayments()\<close>: each resolves to a list or rejects with an
  \<^verbatim>\<open>ApiError\<close>.
\<close>

record ledgerBackend =
  getSales :: "apiError + saleInvoice list"
  getPurchases :: "apiError + purchaseBill list"
  getPayments :: "apiError + payment list"

subsection \<open>getPartyTransactions\<close>

fun asTransactionType :: "paymentType \<Rightarrow> transactionType" where
  "asTransactionType payment_in = paymentIn"
| "asTransactionType payment_out = paymentOut"

definition pushSales ::
  "jsRuntime \<Rightarrow> string \<Rightarrow> string \<Rightarrow> saleInvoice list \<Rightarrow> partyTransaction list" where
  "pushSales rt pName phone sales =
     map (\<lambda>sale. \<lparr>id_tx = id_sale sale,
                  partyId = toLowerCase rt pName @ ''-'' @ phone,
                  type_tx = invoice,
                  amount = saleInvoice.totalAmount sale,
                  date = saleInvoice.date sale,
                  reference = invoiceNo sale\<rparr>)
       (filter (\<lambda>sale. toLowerCase rt (saleInvoice.partyName sale) = toLowerCase rt pName \<and>
                      saleInvoice.phoneNumber sale = phone) sales)"

definition pushPurchases ::
  "jsRuntime \<Rightarrow> string \<Rightarrow> string \<Rightarrow> purchaseBill list \<Rightarrow> partyTransaction list" where
  "pushPurchases rt pName phone purchases =
     map (\<lambda>purchase. \<lparr>id_tx = id_purchase purchase,
                      partyId = toLowerCase rt pName @ ''-'' @ phone,
                      type_tx = bill,
                      amount = purchaseBill.totalAmount purchase,
                      date = purchaseBill.date purchase,
                      reference = billNo purchase\<rparr>)
       (filter (\<lambda>purchase. toLowerCase rt (purchaseBill.partyName purchase) = toLowerCase rt pName \<and>
                          purchaseBill.phoneNumber purchase = phone) purchases)"

definition pushPayments ::
  "jsRuntime \<Rightarrow> string \<Rightarrow> string \<Rightarrow> payment list \<Rightarrow> partyTransaction list" where
  "pushPayments rt pName phone payments =
     map (\<lambda>p. \<lparr>id_tx = id_payment p,
               partyId = toLowerCase rt pName @ ''-'' @ phone,
               type_tx = asTransactionType (type_payment p),
               amount = payment.amount p,
               date = payment.date p,
               reference = paymentNo p\<rparr>)
       (filter (\<lambda>p. toLowerCase rt (payment.partyName p) = toLowerCase rt pName \<and>
                   payment.phoneNumber p = phone) payments)"

text \<open>
  \<^verbatim>\<open>transactions.sort((a, b) => new Date(b.date).getTime() - new Date(a.date).getTime())\<close>:
  newest first; the sort of the runtime is stable, as insertion sort is.
\<close>

definition sortNewestFirst :: "jsRuntime \<Rightarrow> partyTransaction list \<Rightarrow> partyTransaction list" where
  "sortNewestFirst rt transactions =
     sort_key (\<lambda>t. - getTime rt (partyTransaction.date t)) transactions"

text \<open>
  The body of the \<^verbatim>\<open>try\<close> block awaits the three reads in turn; the first rejection leaves
  the block. The \<^verbatim>\<open>catch\<close> block logs and returns the empty array, so the promise of
  \<^verbatim>\<open>getPartyTransactions\<close> itself never rejects.
\<close>

definition getPartyTransactionsBody ::
  "jsRuntime \<Rightarrow> ledgerBackend \<Rightarrow> string \<Rightarrow> string \<Rightarrow> apiError + partyTransaction list" where
  "getPartyTransactionsBody rt api pName phone =
     (case getSales api of
        Inl e \<Rightarrow> Inl e
      | Inr sales \<Rightarrow>
          (case getPurchases api of
             Inl e \<Rightarrow> Inl e
           | Inr purchases \<Rightarrow>
               (case getPayments api of
                  Inl e \<Rightarrow> Inl e
                | Inr payments \<Rightarrow>
                    Inr (sortNewestFirst rt
                           (pushSales rt pName phone sales @
                            pushPurchases rt pName phone purchases @
                            pushPayments rt pName phone payments)))))"

definition getPartyTransactions ::
  "jsRuntime \<Rightarrow> ledgerBackend \<Rightarrow> string \<Rightarrow> string \<Rightarrow> apiError + partyTransaction list" where
  "getPartyTransactions rt api pName phone =
     (case getPartyTransactionsBody rt api pName phone of
        Inl e \<Rightarrow> Inr []
      | Inr transactions \<Rightarrow> Inr transactions)"

subsection \<open>The two balance loops\<close>

record totals =
  balance :: jsnum
  totalInvoiced :: jsnum
  totalBilled :: jsnum
  totalPaymentIn :: jsnum
  totalPaymentOut :: jsnum

record balanceBreakdown = totals +
  transactionCount :: nat

definition zeroTotals :: totals where
  "zeroTotals = \<lparr>balance = Num 0, totalInvoiced = Num 0, totalBilled = Num 0,
                  totalPaymentIn = Num 0, totalPaymentOut = Num 0\<rparr>"

definition zeroBreakdown :: balanceBreakdown where
  "zeroBreakdown = \<lparr>balance = Num 0, totalInvoiced = Num 0, totalBilled = Num 0,
                     totalPaymentIn = Num 0, totalPaymentOut = Num 0, transactionCount = 0\<rparr>"

text \<open>The \<^verbatim>\<open>switch\<close> of \<^verbatim>\<open>calculatePartyBalanceFromTransactions\<close>, one transaction.\<close>

definition breakdownStep :: "totals \<Rightarrow> partyTransaction \<Rightarrow> totals" where
  "breakdownStep acc t =
     (case type_tx t of
        invoice \<Rightarrow>
          acc\<lparr>balance := balance acc + toNumber (partyTransaction.amount t),
              totalInvoiced := totalInvoiced acc + toNumber (partyTransaction.amount t)\<rparr>
      | bill \<Rightarrow>
          acc\<lparr>balance := balance acc - toNumber (partyTransaction.amount t),
              totalBilled := totalBilled acc + toNumber (partyTransaction.amount t)\<rparr>
      | paymentIn \<Rightarrow>
          acc\<lparr>totalPaymentIn := totalPaymentIn acc + toNumber (partyTransaction.amount t),
              balance := balance acc - toNumber (partyTransaction.amount t)\<rparr>
      | paymentOut \<Rightarrow>
          acc\<lparr>totalPaymentOut := totalPaymentOut acc + toNumber (partyTransaction.amount t),
              balance := balance acc + toNumber (partyTransaction.amount t)\<rparr>)"

text \<open>The loop and the object literal that is returned after it.\<close>

definition computeBreakdown :: "partyTransaction list \<Rightarrow> balanceBreakdown" where
  "computeBreakdown transactions =
     (let acc = foldl breakdownStep zeroTotals transactions
      in \<lparr>balance = balance acc,
          totalInvoiced = totalInvoiced acc,
          totalBilled = totalBilled acc,
          totalPaymentIn = totalPaymentIn acc,
          totalPaymentOut = totalPaymentOut acc,
          transactionCount = length transactions\<rparr>)"

definition calculatePartyBalanceFromTransactions ::
  "jsRuntime \<Rightarrow> ledgerBackend \<Rightarrow> string \<Rightarrow> string \<Rightarrow> apiError + balanceBreakdown" where
  "calculatePartyBalanceFromTransactions rt api pName phone =
     (case getPartyTransactions rt api pName phone of
        Inl e \<Rightarrow> Inr zeroBreakdown
      | Inr transactions \<Rightarrow> Inr (computeBreakdown transactions))"

text \<open>The \<^verbatim>\<open>switch\<close> of \<^verbatim>\<open>getPartyBalance\<close>, which keeps the balance alone.\<close>

definition balanceStep :: "jsnum \<Rightarrow> partyTransaction \<Rightarrow> jsnum" where
  "balanceStep b t =
     (case type_tx t of
        invoice \<Rightarrow> b + toNumber (partyTransaction.amount t)
      | bill \<Rightarrow> b - toNumber (partyTransaction.amount t)
      | paymentIn \<Rightarrow> b - toNumber (partyTransaction.amount t)
      | paymentOut \<Rightarrow> b + toNumber (partyTransaction.amount t))"

definition getPartyBalance ::
  "jsRuntime \<Rightarrow> ledgerBackend \<Rightarrow> string \<Rightarrow> string \<Rightarrow> apiError + jsnum" where
  "getPartyBalance rt api pName phone =
     (case getPartyTransactions rt api pName phone of
        Inl e \<Rightarrow> Inr (Num 0)
      | Inr transactions \<Rightarrow> Inr (foldl balanceStep (Num 0) transactions))"

text \<open>The sum of the amounts of one kind, the reading of the specification.\<close>

definition sumOfKind :: "transactionType \<Rightarrow> partyTransaction list \<Rightarrow> jsnum" where
  "sumOfKind k transactions =
     sum_list (map (\<lambda>t. toNumber (partyTransaction.amount t))
                 (filter (\<lambda>t. type_tx t = k) transactions))"

text \<open>A transaction of a given kind and amount, for concrete runs.\<close>

definition tx :: "transactionType \<Rightarrow> rat option \<Rightarrow> partyTransaction" where
  "tx k a = \<lparr>id_tx = ''t'', partyId = ''p'', type_tx = k, amount = a,
             date = ''2024-01-01'', reference = ''r''\<rparr>"



definition ramSale :: saleInvoice where
  "ramSale = \<lparr>id_sale = ''s1'', partyName = ''Ram'', phoneNumber = ''98'',
               totalAmount = Some 100, date = ''2024-01-01'', invoiceNo = ''INV-1''\<rparr>"

definition paymentsDown :: ledgerBackend where
  "paymentsDown = \<lparr>getSales = Inr [ramSale], getPurchases = Inr [],
                    getPayments = Inl ApiError\<rparr>"

definition allUp :: ledgerBackend where
  "allUp = \<lparr>getSales = Inr [ramSale], getPurchases = Inr [], getPayments = Inr []\<rparr>"

text \<open>The total of one kind, read off a breakdown.\<close>

fun totalOfKind :: "transactionType \<Rightarrow> balanceBreakdown \<Rightarrow> jsnum" where
  "totalOfKind invoice r = totalInvoiced r"
| "totalOfKind bill r = totalBilled r"
| "totalOfKind paymentIn r = totalPaymentIn r"
| "totalOfKind paymentOut r = totalPaymentOut r"


section \<open>The stock manager (StockManager)\<close>

subsection \<open>Items, line items and the items service\<close>

text \<open>
  An \<^verbatim>\<open>Item\<close> of the catalogue, with the fields the stock manager reads: the optional
  \<^verbatim>\<open>id\<close>, the product name and the stock, which is kept in bags. A line item of a sale or
  a purchase carries the item name and the quantity in kg.
\<close>

record item =
  id_item :: "string option"
  productName :: string
  openingStock :: rat

record saleItem =
  itemName :: string
  quantity :: rat

datatype bardanaOperation = add | subtract

text \<open>
  \<^verbatim>\<open>ItemsApiService\<close> sends requests to a server that is not part of the application. The
  three requests the stock manager sends are parameters of the model: each takes the state
  of the server and gives the state after the request, with the list or item it resolves to
  or the \<^verbatim>\<open>ApiError\<close> it rejects with. \<^verbatim>\<open>getItems\<close> takes the search text,
  \<^verbatim>\<open>updateItem\<close> the id and the new \<^verbatim>\<open>openingStock\<close>, \<^verbatim>\<open>updateBardanaStock\<close> the operation and
  the quantity in kg.
\<close>

record 'b itemsApi =
  getItems :: "string \<Rightarrow> 'b \<Rightarrow> (apiError + item list) \<times> 'b"
  updateItem :: "string \<Rightarrow> rat \<Rightarrow> 'b \<Rightarrow> (apiError + item) \<times> 'b"
  updateBardanaStock :: "bardanaOperation \<Rightarrow> rat \<Rightarrow> 'b \<Rightarrow> (apiError + item) \<times> 'b"

text \<open>
  What \<^verbatim>\<open>logWarn\<close> and \<^verbatim>\<open>logError\<close> print (\<^verbatim>\<open>log\<close> prints in development builds only and
  is left out), and the state a call of the stock manager works on: the server, the static
  set \<^verbatim>\<open>processedInvoices\<close> and the console.
\<close>

datatype logEntry = Warn string | Error string

record 'b stockWorld =
  backend :: 'b
  processedInvoices :: "string set"
  console :: "logEntry list"

subsection \<open>Consolidation and the two stock formulas\<close>

text \<open>
  \<^verbatim>\<open>soldItemsMap.set(item.itemName, (soldItemsMap.get(item.itemName) || 0) + item.quantity)\<close>
  for each line item. A \<^verbatim>\<open>Map\<close> iterates in the order of first insertion, so it is an
  association list whose update keeps the position of a key that is present.
\<close>

definition consolidate :: "saleItem list \<Rightarrow> (string \<times> rat) list" where
  "consolidate soldItems =
     foldl (\<lambda>soldItemsMap item.
              AList.update (itemName item)
                ((case map_of soldItemsMap (itemName item) of
                    Some currentQty \<Rightarrow> currentQty
                  | None \<Rightarrow> 0) + quantity item)
                soldItemsMap)
       [] soldItems"

text \<open>\<^verbatim>\<open>totalBardanaReduction += item.quantity\<close> for each line item, from 0.\<close>

definition totalQuantity :: "saleItem list \<Rightarrow> rat" where
  "totalQuantity soldItems = foldl (\<lambda>totalKg item. totalKg + quantity item) 0 soldItems"

text \<open>
  \<^verbatim>\<open>const soldBags = quantity / 30;\<close>
  \<^verbatim>\<open>const newStock = Math.max(0, Math.round((item.openingStock - soldBags) * 100) / 100);\<close>
\<close>

definition saleNewStock :: "rat \<Rightarrow> rat \<Rightarrow> rat" where
  "saleNewStock stock qty =
     (let soldBags = qty / 30
      in max 0 (of_int (mathRound ((stock - soldBags) * 100)) / 100))"


subsection \<open>The loop over the consolidated items\<close>

text \<open>
  The body of the inner \<^verbatim>\<open>try\<close> block, the same in \<^verbatim>\<open>updateStockOnSale\<close> and
  \<^verbatim>\<open>updateStockOnPurchase\<close> but for the formula of the new stock: read the items matching the
  name, take the first whose product name is the name, and write its new stock when it
  exists and has a non-empty id; warn otherwise. A rejected read or write leaves the block.
\<close>

definition adjustItemBody ::
  "(rat \<Rightarrow> rat \<Rightarrow> rat) \<Rightarrow> 'b itemsApi \<Rightarrow> string \<times> rat \<Rightarrow> 'b stockWorld
     \<Rightarrow> (apiError + unit) \<times> 'b stockWorld" where
  "adjustItemBody newStockOf api entry w =
     (case entry of (name, qty) \<Rightarrow>
        (case getItems api name (backend w) of
           (Inl e, b1) \<Rightarrow> (Inl e, w\<lparr>backend := b1\<rparr>)
         | (Inr items, b1) \<Rightarrow>
             (let notFound =
                    (Inr (), w\<lparr>backend := b1,
                               console := console w @
                                 [Warn (''Item '' @ name @ '' not found in backend'')]\<rparr>)
              in case find (\<lambda>i. productName i = name) items of
                   None \<Rightarrow> notFound
                 | Some found \<Rightarrow>
                     (case id_item found of
                        None \<Rightarrow> notFound
                      | Some foundId \<Rightarrow>
                          if foundId = [] then notFound
                          else
                            (case updateItem api foundId
                                    (newStockOf (openingStock found) qty) b1 of
                               (Inl e, b2) \<Rightarrow> (Inl e, w\<lparr>backend := b2\<rparr>)
                             | (Inr updated, b2) \<Rightarrow> (Inr (), w\<lparr>backend := b2\<rparr>))))))"

text \<open>
  The inner \<^verbatim>\<open>catch\<close> block logs the error and the loop goes on with the next item.
\<close>

definition adjustItem ::
  "(rat \<Rightarrow> rat \<Rightarrow> rat) \<Rightarrow> 'b itemsApi \<Rightarrow> 'b stockWorld \<Rightarrow> string \<times> rat \<Rightarrow> 'b stockWorld" where
  "adjustItem newStockOf api w entry =
     (case adjustItemBody newStockOf api entry w of
        (Inl e, w1) \<Rightarrow>
          w1\<lparr>console := console w1 @ [Error (''Error updating stock for '' @ fst entry @ '':'')]\<rparr>
      | (Inr u, w1) \<Rightarrow> w1)"

definition adjustItems ::
  "(rat \<Rightarrow> rat \<Rightarrow> rat) \<Rightarrow> 'b itemsApi \<Rightarrow> (string \<times> rat) list \<Rightarrow> 'b stockWorld \<Rightarrow> 'b stockWorld" where
  "adjustItems newStockOf api itemsMap w = foldl (adjustItem newStockOf api) w itemsMap"

subsection \<open>updateStockOnSale and updateStockOnPurchase\<close>

text \<open>
  The guard \<^verbatim>\<open>invoiceId && this.processedInvoices.has(invoiceId)\<close> and the final
  \<^verbatim>\<open>if (invoiceId) this.processedInvoices.add(invoiceId)\<close>. The parameter is optional, and
  the empty string is as falsy as \<^verbatim>\<open>undefined\<close>.
\<close>

definition alreadyProcessed :: "string option \<Rightarrow> 'b stockWorld \<Rightarrow> bool" where
  "alreadyProcessed invoiceId w =
     (case invoiceId of
        None \<Rightarrow> False
      | Some i \<Rightarrow> i \<noteq> [] \<and> i \<in> processedInvoices w)"

definition markProcessed :: "string option \<Rightarrow> 'b stockWorld \<Rightarrow> 'b stockWorld" where
  "markProcessed invoiceId w =
     (case invoiceId of
        None \<Rightarrow> w
      | Some i \<Rightarrow>
          if i \<noteq> [] then w\<lparr>processedInvoices := insert i (processedInvoices w)\<rparr> else w)"

text \<open>
  \<^verbatim>\<open>if (total > 0) { await ItemsApiService.updateBardanaStock(operation, total); }\<close>
  with the error it may throw and the state of the server after it.
\<close>

definition updateBardana ::
  "'b itemsApi \<Rightarrow> bardanaOperation \<Rightarrow> rat \<Rightarrow> 'b \<Rightarrow> apiError option \<times> 'b" where
  "updateBardana api operation totalKg b =
     (if totalKg > 0
      then (case updateBardanaStock api operation totalKg b of
              (Inl e, b1) \<Rightarrow> (Some e, b1)
            | (Inr bardana, b1) \<Rightarrow> (None, b1))
      else (None, b))"

text \<open>
  \<^verbatim>\<open>updateStockOnSale(soldItems, invoiceId?)\<close>. An empty list returns at once, and so does
  an invoice id that is already in \<^verbatim>\<open>processedInvoices\<close>. Otherwise the line items are
  consolidated, the Bardana request is sent when the total is positive, the consolidated
  items are adjusted one by one, and the invoice id is added to the set. The outer
  \<^verbatim>\<open>catch\<close> block logs and throws again; in the model only the Bardana request can reach
  it.
\<close>

definition updateStockOnSale ::
  "'b itemsApi \<Rightarrow> saleItem list \<Rightarrow> string option \<Rightarrow> 'b stockWorld
     \<Rightarrow> (apiError + unit) \<times> 'b stockWorld" where
  "updateStockOnSale api soldItems invoiceId w =
     (if soldItems = [] then (Inr (), w)
      else if alreadyProcessed invoiceId w then (Inr (), w)
      else
        (let soldItemsMap = consolidate soldItems;
             totalBardanaReduction = totalQuantity soldItems
         in case updateBardana api subtract totalBardanaReduction (backend w) of
              (Some e, b1) \<Rightarrow>
                (Inl e, w\<lparr>backend := b1,
                           console := console w @ [Error ''Error updating stock on sale:'']\<rparr>)
            | (None, b1) \<Rightarrow>
                (Inr (),
                 markProcessed invoiceId
                   (adjustItems saleNewStock api soldItemsMap (w\<lparr>backend := b1\<rparr>)))))"


text \<open>\<^verbatim>\<open>isInvoiceProcessed(invoiceId)\<close>.\<close>

definition isInvoiceProcessed :: "'b stockWorld \<Rightarrow> string \<Rightarrow> bool" where
  "isInvoiceProcessed w invoiceId = (invoiceId \<in> processedInvoices w)"

subsection \<open>Conversion between kg and bags\<close>





subsection \<open>A reference server for concrete runs\<close>

text \<open>
  Modelled from the spec: the server behind \<^verbatim>\<open>ItemsApiService\<close> (the persistence
  collaborator) is missing from the repository. The reference server keeps the catalogue,
  the stock of the universal item Bardana in bags, and a journal of the requests it has
  received. \<^verbatim>\<open>listItems\<close> with a search text answers with the catalogue items whose product
  name contains the text. \<^verbatim>\<open>updateItem\<close> patches the stock of the item with the given id.
  \<^verbatim>\<open>updateBardanaStock\<close> takes the Bardana stock in kg (bags times 30), adds or subtracts
  the quantity and stores the result divided by 30. A request is rejected when the server
  is told to fail it: reads by search text, writes by id, the Bardana request by a flag.
\<close>

datatype apiRequest =
  GetItems string
| UpdateItem string rat
| UpdateBardanaStock bardanaOperation rat

record store =
  catalog :: "item list"
  bardanaBags :: rat
  getItemsDown :: "string set"
  updateItemDown :: "string set"
  bardanaDown :: bool
  requests :: "apiRequest list"

fun startsWith :: "string \<Rightarrow> string \<Rightarrow> bool" where
  "startsWith s [] = True"
| "startsWith [] (c # cs) = False"
| "startsWith (d # ds) (c # cs) = (d = c \<and> startsWith ds cs)"

fun containsText :: "string \<Rightarrow> string \<Rightarrow> bool" where
  "containsText [] search = (search = [])"
| "containsText (d # ds) search = (startsWith (d # ds) search \<or> containsText ds search)"

definition storeGetItems :: "string \<Rightarrow> store \<Rightarrow> (apiError + item list) \<times> store" where
  "storeGetItems search s =
     (let s1 = s\<lparr>requests := requests s @ [GetItems search]\<rparr>
      in if search \<in> getItemsDown s then (Inl ApiError, s1)
         else (Inr (filter (\<lambda>i. containsText (productName i) search) (catalog s)), s1))"

definition storeUpdateItem :: "string \<Rightarrow> rat \<Rightarrow> store \<Rightarrow> (apiError + item) \<times> store" where
  "storeUpdateItem target newStock s =
     (let s1 = s\<lparr>requests := requests s @ [UpdateItem target newStock]\<rparr>
      in if target \<in> updateItemDown s then (Inl ApiError, s1)
         else
           (case find (\<lambda>i. id_item i = Some target) (catalog s) of
              None \<Rightarrow> (Inl ApiError, s1)
            | Some found \<Rightarrow>
                (Inr (found\<lparr>openingStock := newStock\<rparr>),
                 s1\<lparr>catalog := map (\<lambda>i. if id_item i = Some target
                                        then i\<lparr>openingStock := newStock\<rparr> else i)
                                  (catalog s)\<rparr>)))"

definition storeUpdateBardanaStock ::
  "bardanaOperation \<Rightarrow> rat \<Rightarrow> store \<Rightarrow> (apiError + item) \<times> store" where
  "storeUpdateBardanaStock operation qty s =
     (let s1 = s\<lparr>requests := requests s @ [UpdateBardanaStock operation qty]\<rparr>
      in if bardanaDown s then (Inl ApiError, s1)
         else
           (let stockKg = bardanaBags s * 30;
                newKg = (case operation of add \<Rightarrow> stockKg + qty | subtract \<Rightarrow> stockKg - qty)
            in (Inr \<lparr>id_item = Some ''bardana'', productName = ''Bardana'',
                     openingStock = newKg / 30\<rparr>,
                s1\<lparr>bardanaBags := newKg / 30\<rparr>)))"

definition storeApi :: "store itemsApi" where
  "storeApi = \<lparr>getItems = storeGetItems, updateItem = storeUpdateItem,
                updateBardanaStock = storeUpdateBardanaStock\<rparr>"

text \<open>
  A server with three items and 100 bags of Bardana, and a sale of four lines over three
  distinct names: 90 kg of rice, 15 kg of tea, which the catalogue does not have, and 45 kg
  of wheat, of which one bag is in stock.
\<close>

definition rice :: item where
  "rice = \<lparr>id_item = Some ''i1'', productName = ''Rice'', openingStock = 10\<rparr>"

definition wheat :: item where
  "wheat = \<lparr>id_item = Some ''i2'', productName = ''Wheat'', openingStock = 1\<rparr>"

definition sugar :: item where
  "sugar = \<lparr>id_item = Some ''i3'', productName = ''Sugar'', openingStock = 5\<rparr>"

definition sampleStore :: store where
  "sampleStore =
     \<lparr>catalog = [rice, wheat, sugar], bardanaBags = 100, getItemsDown = {},
      updateItemDown = {}, bardanaDown = False, requests = []\<rparr>"

definition sampleWorld :: "store stockWorld" where
  "sampleWorld = \<lparr>backend = sampleStore, processedInvoices = {}, console = []\<rparr>"

definition sampleSale :: "saleItem list" where
  "sampleSale = [\<lparr>itemName = ''Rice'', quantity = 30\<rparr>,
                 \<lparr>itemName = ''Tea'', quantity = 15\<rparr>,
                 \<lparr>itemName = ''Wheat'', quantity = 45\<rparr>,
                 \<lparr>itemName = ''Rice'', quantity = 60\<rparr>]"


text \<open>The same server when it rejects every read of items.\<close>

definition readsDownWorld :: "store stockWorld" where
  "readsDownWorld =
     sampleWorld\<lparr>backend := sampleStore\<lparr>getItemsDown := {''Rice'', ''Tea'', ''Wheat''}\<rparr>\<rparr>"

text \<open>The same server when it rejects the Bardana request.\<close>

definition bardanaDownWorld :: "store stockWorld" where
  "bardanaDownWorld = sampleWorld\<lparr>backend := sampleStore\<lparr>bardanaDown := True\<rparr>\<rparr>"

text \<open>The state after the sample sale with the invoice id \<^verbatim>\<open>INV-1\<close>.\<close>

definition soldWorld :: "store stockWorld" where
  "soldWorld =
     \<lparr>backend =
        \<lparr>catalog = [rice\<lparr>openingStock := 7\<rparr>, wheat\<lparr>openingStock := 0\<rparr>, sugar],
         bardanaBags = 95, getItemsDown = {}, updateItemDown = {}, bardanaDown = False,
         requests = [UpdateBardanaStock subtract 150, GetItems ''Rice'', UpdateItem ''i1'' 7,
                     GetItems ''Tea'', GetItems ''Wheat'', UpdateItem ''i2'' 0]\<rparr>,
      processedInvoices = {''INV-1''},
      console = [Warn ''Item Tea not found in backend'']\<rparr>"


text \<open>Every stock of the catalogue is at least 0.\<close>

definition stocksNonNegative :: "store \<Rightarrow> bool" where
  "stocksNonNegative s = list_all (\<lambda>i. 0 \<le> openingStock i) (catalog s)"

section \<open>Properties of the ledger\<close>

subsection \<open>The loops compute signed sums\<close>

lemma sign_invoice: "(i - b - p + q) + (a :: jsnum) = (i + a) - b - p + q"
  by (cases i; cases b; cases p; cases q; cases a) simp_all

lemma sign_bill: "(i - b - p + q) - (a :: jsnum) = i - (b + a) - p + q"
  by (cases i; cases b; cases p; cases q; cases a) simp_all

lemma sign_paymentIn: "(i - b - p + q) - (a :: jsnum) = i - b - (p + a) + q"
  by (cases i; cases b; cases p; cases q; cases a) simp_all

lemma sign_paymentOut: "(i - b - p + q) + (a :: jsnum) = i - b - p + (q + a)"
  by (cases i; cases b; cases p; cases q; cases a) simp_all

lemma breakdownStep_invariant:
  assumes "balance acc = totalInvoiced acc - totalBilled acc - totalPaymentIn acc + totalPaymentOut acc"
  shows "balance (breakdownStep acc t) =
         totalInvoiced (breakdownStep acc t) - totalBilled (breakdownStep acc t)
           - totalPaymentIn (breakdownStep acc t) + totalPaymentOut (breakdownStep acc t)"
proof (cases "type_tx t")
  case invoice
  then show ?thesis
    by (simp add: breakdownStep_def assms sign_invoice)
next
  case bill
  then show ?thesis
    by (simp add: breakdownStep_def assms sign_bill)
next
  case paymentIn
  then show ?thesis
    by (simp add: breakdownStep_def assms sign_paymentIn)
next
  case paymentOut
  then show ?thesis
    by (simp add: breakdownStep_def assms sign_paymentOut)
qed

lemma foldl_breakdownStep_invariant:
  "balance acc = totalInvoiced acc - totalBilled acc - totalPaymentIn acc + totalPaymentOut acc \<Longrightarrow>
   balance (foldl breakdownStep acc ts) =
     totalInvoiced (foldl breakdownStep acc ts) - totalBilled (foldl breakdownStep acc ts)
       - totalPaymentIn (foldl breakdownStep acc ts) + totalPaymentOut (foldl breakdownStep acc ts)"
  by (induction ts arbitrary: acc) (simp_all add: breakdownStep_invariant)

lemma foldl_totalInvoiced:
  "totalInvoiced (foldl breakdownStep acc ts) = totalInvoiced acc + sumOfKind invoice ts"
  by (induction ts arbitrary: acc)
     (simp_all add: sumOfKind_def breakdownStep_def add.assoc split: transactionType.splits)

lemma foldl_totalBilled:
  "totalBilled (foldl breakdownStep acc ts) = totalBilled acc + sumOfKind bill ts"
  by (induction ts arbitrary: acc)
     (simp_all add: sumOfKind_def breakdownStep_def add.assoc split: transactionType.splits)

lemma foldl_totalPaymentIn:
  "totalPaymentIn (foldl breakdownStep acc ts) = totalPaymentIn acc + sumOfKind paymentIn ts"
  by (induction ts arbitrary: acc)
     (simp_all add: sumOfKind_def breakdownStep_def add.assoc split: transactionType.splits)

lemma foldl_totalPaymentOut:
  "totalPaymentOut (foldl breakdownStep acc ts) = totalPaymentOut acc + sumOfKind paymentOut ts"
  by (induction ts arbitrary: acc)
     (simp_all add: sumOfKind_def breakdownStep_def add.assoc split: transactionType.splits)

lemma jsnum_zero_add: "Num 0 + (x :: jsnum) = x"
  by (cases x) simp_all



lemma computeBreakdown_sums:
  "computeBreakdown ts =
     \<lparr>balance = sumOfKind invoice ts - sumOfKind bill ts - sumOfKind paymentIn ts
                 + sumOfKind paymentOut ts,
      totalInvoiced = sumOfKind invoice ts,
      totalBilled = sumOfKind bill ts,
      totalPaymentIn = sumOfKind paymentIn ts,
      totalPaymentOut = sumOfKind paymentOut ts,
      transactionCount = length ts\<rparr>"
proof -
  have inv: "balance zeroTotals = totalInvoiced zeroTotals - totalBilled zeroTotals
               - totalPaymentIn zeroTotals + totalPaymentOut zeroTotals"
    by (simp add: zeroTotals_def)
  have z: "totalInvoiced zeroTotals = Num 0" "totalBilled zeroTotals = Num 0"
    "totalPaymentIn zeroTotals = Num 0" "totalPaymentOut zeroTotals = Num 0"
    by (simp_all add: zeroTotals_def)
  show ?thesis
    unfolding computeBreakdown_def Let_def
    by (simp add: foldl_breakdownStep_invariant [OF inv] foldl_totalInvoiced foldl_totalBilled
          foldl_totalPaymentIn foldl_totalPaymentOut z jsnum_zero_add)
qed




lemma getPartyTransactions_Inr: "\<exists>ts. getPartyTransactions rt api n p = Inr ts"
  by (simp add: getPartyTransactions_def split: sum.splits)

lemma sum_list_NaN: "NaN \<in> set xs \<Longrightarrow> sum_list xs = (NaN :: jsnum)"
proof (induction xs)
  case Nil
  then show ?case by simp
next
  case (Cons x xs)
  show ?case
  proof (cases "x = NaN")
    case True
    then show ?thesis by simp
  next
    case False
    with Cons have "sum_list xs = NaN" by simp
    then show ?thesis by (cases x) simp_all
  qed
qed

lemma sumOfKind_missing:
  assumes "t \<in> set ts" and "partyTransaction.amount t = None"
  shows "sumOfKind (type_tx t) ts = NaN"
proof -
  have "toNumber (partyTransaction.amount t) \<in>
          set (map (\<lambda>t. toNumber (partyTransaction.amount t))
                 (filter (\<lambda>u. type_tx u = type_tx t) ts))"
    using assms(1) by (simp add: image_iff) blast
  then have "NaN \<in> set (map (\<lambda>t. toNumber (partyTransaction.amount t))
                 (filter (\<lambda>u. type_tx u = type_tx t) ts))"
    using assms(2) by simp
  then show ?thesis
    unfolding sumOfKind_def by (rule sum_list_NaN)
qed

lemma balance_missing:
  assumes "t \<in> set ts" and "partyTransaction.amount t = None"
  shows "balance (computeBreakdown ts) = NaN"
proof -
  have "sumOfKind (type_tx t) ts = NaN"
    using assms by (rule sumOfKind_missing)
  then show ?thesis
    by (cases "type_tx t") (simp_all add: computeBreakdown_sums)
qed

lemma totalOfKind_sums: "totalOfKind k (computeBreakdown ts) = sumOfKind k ts"
  by (cases k) (simp_all add: computeBreakdown_sums)

lemma getPartyTransactions_fetch_failed:
  assumes "getSales api = Inl e \<or> getPurchases api = Inl e \<or> getPayments api = Inl e"
  shows "getPartyTransactions rt api n p = Inr []"
  using assms
  by (auto simp: getPartyTransactions_def getPartyTransactionsBody_def split: sum.splits)

lemma computeBreakdown_Nil: "computeBreakdown [] = zeroBreakdown"
  by (simp add: computeBreakdown_def zeroTotals_def zeroBreakdown_def)

subsection \<open>The claims on the ledger\<close>




text \<open>
  Claim C3, as stated, fails on the code: a bill whose amount is absent is not treated as a
  bill of amount 0. \<^verbatim>\<open>balance - undefined\<close> and \<^verbatim>\<open>totalBilled += undefined\<close> are \<open>NaN\<close>, so
  the balance and the total of bills are \<open>NaN\<close>, where a bill of amount 0 leaves the balance
  at 100 and the total of bills at 0.
\<close>

theorem missing_amount_counterexample:
  "computeBreakdown [tx invoice (Some 100), tx bill None] =
     \<lparr>balance = NaN, totalInvoiced = Num 100, totalBilled = NaN,
      totalPaymentIn = Num 0, totalPaymentOut = Num 0, transactionCount = 2\<rparr>
   \<and> computeBreakdown [tx invoice (Some 100), tx bill (Some 0)] =
     \<lparr>balance = Num 100, totalInvoiced = Num 100, totalBilled = Num 0,
      totalPaymentIn = Num 0, totalPaymentOut = Num 0, transactionCount = 2\<rparr>
   \<and> computeBreakdown [tx invoice (Some 100), tx bill None] \<noteq>
     computeBreakdown [tx invoice (Some 100), tx bill (Some 0)]"
  by (simp add: computeBreakdown_sums sumOfKind_def tx_def zero_jsnum_def)

text \<open>
  Claim C3, amended. The balance computation has no error condition: the empty list gives
  the all-zero breakdown, both entry points always resolve, and every transaction is counted
  in \<open>transactionCount\<close>. A transaction whose amount is absent is not read as 0: it turns
  the balance and the total of its own kind into \<open>NaN\<close>.
\<close>

theorem balance_total_missing_is_NaN:
  "computeBreakdown [] = zeroBreakdown
   \<and> (\<exists>r. calculatePartyBalanceFromTransactions rt api n p = Inr r)
   \<and> (\<exists>b. getPartyBalance rt api n p = Inr b)
   \<and> transactionCount (computeBreakdown ts) = length ts
   \<and> (t \<in> set ts \<and> partyTransaction.amount t = None \<longrightarrow>
        balance (computeBreakdown ts) = NaN
        \<and> totalOfKind (type_tx t) (computeBreakdown ts) = NaN)"
proof -
  obtain fetched where f: "getPartyTransactions rt api n p = Inr fetched"
    using getPartyTransactions_Inr by blast
  have r: "\<exists>r. calculatePartyBalanceFromTransactions rt api n p = Inr r"
    using f by (simp add: calculatePartyBalanceFromTransactions_def)
  have b: "\<exists>b. getPartyBalance rt api n p = Inr b"
    using f by (simp add: getPartyBalance_def)
  have c: "transactionCount (computeBreakdown ts) = length ts"
    by (simp add: computeBreakdown_sums)
  have m: "t \<in> set ts \<and> partyTransaction.amount t = None \<longrightarrow>
        balance (computeBreakdown ts) = NaN
        \<and> totalOfKind (type_tx t) (computeBreakdown ts) = NaN"
    by (auto simp: totalOfKind_sums intro: balance_missing sumOfKind_missing)
  show ?thesis
    using computeBreakdown_Nil r b c m by blast
qed

text \<open>
  An invoice of 100 followed by a bill without amount: the balance and the total of bills are
  \<open>NaN\<close>, and both transactions are counted.
\<close>

theorem balance_total_missing_is_NaN_witness:
  "tx bill None \<in> set [tx invoice (Some 100), tx bill None]
   \<and> partyTransaction.amount (tx bill None) = None
   \<and> balance (computeBreakdown [tx invoice (Some 100), tx bill None]) = NaN
   \<and> totalBilled (computeBreakdown [tx invoice (Some 100), tx bill None]) = NaN
   \<and> transactionCount (computeBreakdown [tx invoice (Some 100), tx bill None]) = 2"
proof -
  have h: "tx bill None \<in> set [tx invoice (Some 100), tx bill None]
           \<and> partyTransaction.amount (tx bill None) = None"
    by (simp add: tx_def)
  have k: "type_tx (tx bill None) = bill"
    by (simp add: tx_def)
  show ?thesis
    using h k balance_total_missing_is_NaN
      [of asciiRuntime allUp "''Ram''" "''98''" "[tx invoice (Some 100), tx bill None]" "tx bill None"]
    by simp
qed

text \<open>
  Claim C4, as stated, fails on the code: with the sales and purchases reads answered and the
  payments read rejected, neither entry point rejects. \<^verbatim>\<open>getPartyTransactions\<close> catches the
  error and resolves to the empty array, so the caller receives the all-zero breakdown and the
  balance 0, although the same party has an invoice of 100 when every read is answered.
\<close>

theorem fetch_failure_counterexample:
  "getPayments paymentsDown = Inl ApiError
   \<and> calculatePartyBalanceFromTransactions asciiRuntime paymentsDown ''Ram'' ''98'' =
       Inr zeroBreakdown
   \<and> getPartyBalance asciiRuntime paymentsDown ''Ram'' ''98'' = Inr (Num 0)
   \<and> calculatePartyBalanceFromTransactions asciiRuntime allUp ''Ram'' ''98'' =
       Inr \<lparr>balance = Num 100, totalInvoiced = Num 100, totalBilled = Num 0,
            totalPaymentIn = Num 0, totalPaymentOut = Num 0, transactionCount = 1\<rparr>"
  by (simp add: calculatePartyBalanceFromTransactions_def getPartyBalance_def
        getPartyTransactions_def getPartyTransactionsBody_def paymentsDown_def allUp_def
        computeBreakdown_Nil pushSales_def pushPurchases_def pushPayments_def sortNewestFirst_def
        ramSale_def asciiRuntime_def toLowerChar_def computeBreakdown_sums sumOfKind_def
        zero_jsnum_def zeroBreakdown_def)

text \<open>
  Claim C4, amended. When the read of any one category (sales, purchases or payments) is
  rejected, \<^verbatim>\<open>getPartyTransactions\<close> catches the error and resolves to the empty list, dropping
  the categories already read; \<^verbatim>\<open>calculatePartyBalanceFromTransactions\<close> then resolves to the
  all-zero breakdown and \<^verbatim>\<open>getPartyBalance\<close> to 0. No error reaches the caller.
\<close>

theorem fetch_failure_defaults_to_zero:
  assumes "getSales api = Inl e \<or> getPurchases api = Inl e \<or> getPayments api = Inl e"
  shows "getPartyTransactions rt api n p = Inr []
         \<and> calculatePartyBalanceFromTransactions rt api n p = Inr zeroBreakdown
         \<and> getPartyBalance rt api n p = Inr (Num 0)"
  using getPartyTransactions_fetch_failed [OF assms, of rt n p]
  by (simp add: calculatePartyBalanceFromTransactions_def getPartyBalance_def
        computeBreakdown_Nil)

text \<open>
  The collaborator whose payments read is rejected.
\<close>

theorem fetch_failure_defaults_to_zero_witness:
  "(getSales paymentsDown = Inl ApiError \<or> getPurchases paymentsDown = Inl ApiError
      \<or> getPayments paymentsDown = Inl ApiError)
   \<and> getPartyTransactions asciiRuntime paymentsDown ''Ram'' ''98'' = Inr []
   \<and> calculatePartyBalanceFromTransactions asciiRuntime paymentsDown ''Ram'' ''98'' =
       Inr zeroBreakdown
   \<and> getPartyBalance asciiRuntime paymentsDown ''Ram'' ''98'' = Inr (Num 0)"
proof -
  have h: "getSales paymentsDown = Inl ApiError \<or> getPurchases paymentsDown = Inl ApiError
      \<or> getPayments paymentsDown = Inl ApiError"
    by (simp add: paymentsDown_def)
  show ?thesis
    using h fetch_failure_defaults_to_zero [OF h, of asciiRuntime "''Ram''" "''98''"] by simp
qed


section \<open>Properties of the stock manager\<close>

subsection \<open>The control flow of a stock update\<close>



lemma sale_empty: "updateStockOnSale api [] invoiceId w = (Inr (), w)"
  by (simp add: updateStockOnSale_def)

lemma sale_skipped:
  "alreadyProcessed invoiceId w \<Longrightarrow> updateStockOnSale api soldItems invoiceId w = (Inr (), w)"
  by (simp add: updateStockOnSale_def)

lemma sale_rethrows:
  assumes "soldItems \<noteq> []" and "\<not> alreadyProcessed invoiceId w"
    and "updateBardana api subtract (totalQuantity soldItems) (backend w) = (Some e, b1)"
  shows "updateStockOnSale api soldItems invoiceId w =
           (Inl e, w\<lparr>backend := b1,
                      console := console w @ [Error ''Error updating stock on sale:'']\<rparr>)"
  using assms by (simp add: updateStockOnSale_def Let_def)

lemma sale_proceeds:
  assumes "soldItems \<noteq> []" and "\<not> alreadyProcessed invoiceId w"
    and "updateBardana api subtract (totalQuantity soldItems) (backend w) = (None, b1)"
  shows "updateStockOnSale api soldItems invoiceId w =
           (Inr (),
            markProcessed invoiceId
              (adjustItems saleNewStock api (consolidate soldItems) (w\<lparr>backend := b1\<rparr>)))"
  using assms by (simp add: updateStockOnSale_def Let_def)




lemma updateBardana_cases:
  obtains (thrown) e b1 where "updateBardana api operation totalKg b = (Some e, b1)"
  | (passed) b1 where "updateBardana api operation totalKg b = (None, b1)"
  by (cases "updateBardana api operation totalKg b") (metis not_Some_eq)



subsection \<open>The loop over the consolidated items\<close>

lemma adjustItem_found:
  assumes "getItems api name (backend w) = (Inr items, b1)"
    and "find (\<lambda>i. productName i = name) items = Some found"
    and "id_item found = Some foundId" and "foundId \<noteq> []"
  shows "adjustItem f api w (name, qty) =
           (case updateItem api foundId (f (openingStock found) qty) b1 of
              (Inl e, b2) \<Rightarrow>
                w\<lparr>backend := b2,
                  console := console w @ [Error (''Error updating stock for '' @ name @ '':'')]\<rparr>
            | (Inr updated, b2) \<Rightarrow> w\<lparr>backend := b2\<rparr>)"
  using assms
  by (simp add: adjustItem_def adjustItemBody_def Let_def split: prod.splits sum.splits)

lemma adjustItem_missing:
  assumes "getItems api name (backend w) = (Inr items, b1)"
    and "find (\<lambda>i. productName i = name) items = None"
  shows "adjustItem f api w (name, qty) =
           w\<lparr>backend := b1,
             console := console w @ [Warn (''Item '' @ name @ '' not found in backend'')]\<rparr>"
  using assms by (simp add: adjustItem_def adjustItemBody_def Let_def)

lemma adjustItem_no_id:
  assumes "getItems api name (backend w) = (Inr items, b1)"
    and "find (\<lambda>i. productName i = name) items = Some found"
    and "id_item found = None \<or> id_item found = Some []"
  shows "adjustItem f api w (name, qty) =
           w\<lparr>backend := b1,
             console := console w @ [Warn (''Item '' @ name @ '' not found in backend'')]\<rparr>"
  using assms by (auto simp: adjustItem_def adjustItemBody_def Let_def)

lemma adjustItem_read_rejected:
  assumes "getItems api name (backend w) = (Inl e, b1)"
  shows "adjustItem f api w (name, qty) =
           w\<lparr>backend := b1,
             console := console w @ [Error (''Error updating stock for '' @ name @ '':'')]\<rparr>"
  using assms by (simp add: adjustItem_def adjustItemBody_def Let_def)



text \<open>
  Whatever happens to one item, the loop leaves the server in the state after the read or
  after the write, and touches neither the set of processed ids nor anything else.
\<close>

lemma adjustItem_cases:
  obtains (skipped) entries where
      "adjustItem f api w (name, qty) =
         w\<lparr>backend := snd (getItems api name (backend w)), console := console w @ entries\<rparr>"
  | (written) foundId stock entries where
      "adjustItem f api w (name, qty) =
         w\<lparr>backend := snd (updateItem api foundId (f stock qty)
                              (snd (getItems api name (backend w)))),
           console := console w @ entries\<rparr>"
proof (cases "getItems api name (backend w)")
  case (Pair r b1)
  show ?thesis
  proof (cases r)
    case (Inl e)
    with Pair show ?thesis
      by (intro skipped) (simp add: adjustItem_read_rejected)
  next
    case (Inr items)
    note read = Pair [unfolded Inr]
    show ?thesis
    proof (cases "find (\<lambda>i. productName i = name) items")
      case None
      with read show ?thesis
        by (intro skipped) (simp add: adjustItem_missing)
    next
      case (Some found)
      show ?thesis
      proof (cases "id_item found = None \<or> id_item found = Some []")
        case True
        with read Some show ?thesis
          by (intro skipped) (simp add: adjustItem_no_id)
      next
        case False
        then obtain foundId where fid: "id_item found = Some foundId" "foundId \<noteq> []"
          by (cases "id_item found") auto
        show ?thesis
        proof (cases "updateItem api foundId (f (openingStock found) qty) b1")
          case (Pair r2 b2)
          show ?thesis
          proof (cases r2)
            case (Inl e)
            show ?thesis
              by (rule written [where foundId = foundId and stock = "openingStock found"
                    and entries = "[Error (''Error updating stock for '' @ name @ '':'')]"])
                 (simp add: adjustItem_found [OF read Some fid] Pair Inl read)
          next
            case (Inr updated)
            show ?thesis
              by (rule written [where foundId = foundId and stock = "openingStock found"
                    and entries = "[]"])
                 (simp add: adjustItem_found [OF read Some fid] Pair Inr read)
          qed
        qed
      qed
    qed
  qed
qed

lemma adjustItem_processed: "processedInvoices (adjustItem f api w entry) = processedInvoices w"
proof -
  obtain name qty where e: "entry = (name, qty)" by (cases entry)
  show ?thesis
    unfolding e by (cases rule: adjustItem_cases [of f api w name qty]) simp_all
qed

lemma adjustItems_processed:
  "processedInvoices (adjustItems f api es w) = processedInvoices w"
  unfolding adjustItems_def
  by (induction es arbitrary: w) (simp_all add: adjustItem_processed)

subsection \<open>The stock formula of a sale\<close>


lemma saleNewStock_nonneg: "0 \<le> saleNewStock stock qty"
  by (simp add: saleNewStock_def Let_def)



subsection \<open>The reference server under a stock update\<close>

lemma storeApi_sel:
  "getItems storeApi = storeGetItems"
  "updateItem storeApi = storeUpdateItem"
  "updateBardanaStock storeApi = storeUpdateBardanaStock"
  by (simp_all add: storeApi_def)

lemma storeGetItems_snd:
  "snd (storeGetItems search s) = s\<lparr>requests := requests s @ [GetItems search]\<rparr>"
  by (simp add: storeGetItems_def Let_def)

lemma storeUpdateItem_nonneg:
  assumes "stocksNonNegative s" and "0 \<le> v"
  shows "stocksNonNegative (snd (storeUpdateItem target v s))"
  using assms
  by (auto simp: storeUpdateItem_def stocksNonNegative_def Let_def list_all_iff
      split: option.splits)


lemma store_adjustItem_nonneg:
  assumes "stocksNonNegative (backend w)"
  shows "stocksNonNegative (backend (adjustItem saleNewStock storeApi w entry))"
proof -
  obtain name qty where e: "entry = (name, qty)" by (cases entry)
  have g: "stocksNonNegative (snd (storeGetItems name (backend w)))"
    using assms by (simp add: stocksNonNegative_def storeGetItems_snd)
  have "stocksNonNegative (backend (adjustItem saleNewStock storeApi w (name, qty)))"
  proof (cases rule: adjustItem_cases [of saleNewStock storeApi w name qty])
    case (skipped entries)
    then show ?thesis
      using g by (simp add: storeApi_sel)
  next
    case (written foundId stock entries)
    then show ?thesis
      using storeUpdateItem_nonneg [OF g saleNewStock_nonneg, of foundId stock qty]
      by (simp add: storeApi_sel)
  qed
  then show ?thesis
    by (simp add: e)
qed

lemma store_adjustItems_nonneg:
  "stocksNonNegative (backend w) \<Longrightarrow>
   stocksNonNegative (backend (adjustItems saleNewStock storeApi es w))"
  unfolding adjustItems_def
  by (induction es arbitrary: w) (simp_all add: store_adjustItem_nonneg)

lemma store_updateBardana:
  "updateBardana storeApi operation totalKg s =
     (if 0 < totalKg
      then if bardanaDown s
           then (Some ApiError, s\<lparr>requests := requests s @ [UpdateBardanaStock operation totalKg]\<rparr>)
           else (None, s\<lparr>requests := requests s @ [UpdateBardanaStock operation totalKg],
                        bardanaBags :=
                          (case operation of
                             add \<Rightarrow> bardanaBags s * 30 + totalKg
                           | subtract \<Rightarrow> bardanaBags s * 30 - totalKg) / 30\<rparr>)
      else (None, s))"
  by (simp add: updateBardana_def storeApi_sel storeUpdateBardanaStock_def Let_def)

lemma store_updateBardana_nonneg:
  "stocksNonNegative s \<Longrightarrow> stocksNonNegative (snd (updateBardana storeApi operation totalKg s))"
  by (simp add: store_updateBardana stocksNonNegative_def)

lemma markProcessed_backend: "backend (markProcessed invoiceId w) = backend w"
  by (simp add: markProcessed_def split: option.splits)

lemma store_sale_nonneg:
  assumes "stocksNonNegative (backend w)"
  shows "stocksNonNegative (backend (snd (updateStockOnSale storeApi soldItems invoiceId w)))"
proof (cases "soldItems = [] \<or> alreadyProcessed invoiceId w")
  case True
  then show ?thesis
    using assms by (auto simp: sale_empty sale_skipped)
next
  case False
  then have ne: "soldItems \<noteq> []" and fresh: "\<not> alreadyProcessed invoiceId w"
    by simp_all
  have b: "stocksNonNegative
             (snd (updateBardana storeApi subtract (totalQuantity soldItems) (backend w)))"
    using assms by (rule store_updateBardana_nonneg)
  show ?thesis
  proof (cases rule: updateBardana_cases
      [of storeApi subtract "totalQuantity soldItems" "backend w"])
    case (thrown e b1)
    then show ?thesis
      using b by (simp add: sale_rethrows [OF ne fresh thrown])
  next
    case (passed b1)
    then show ?thesis
      using b
      by (simp add: sale_proceeds [OF ne fresh passed] markProcessed_backend
            store_adjustItems_nonneg)
  qed
qed











subsection \<open>Reading a stock\<close>


subsection \<open>The claims on the stock manager\<close>



text \<open>
  Claim C6, as stated, fails on the code for the transaction id that is the empty string.
  The guards \<^verbatim>\<open>invoiceId && ...\<close> and \<^verbatim>\<open>if (invoiceId)\<close> take it for an absent id: after a
  first completed call \<^verbatim>\<open>isInvoiceProcessed("")\<close> is false, and a second call with the same id
  changes the stock again (Bardana goes from 100 to 95 to 90 bags, rice from 10 to 7 to 4).
\<close>

theorem empty_invoice_id_counterexample:
  "fst (updateStockOnSale storeApi sampleSale (Some []) sampleWorld) = Inr ()
   \<and> \<not> isInvoiceProcessed (snd (updateStockOnSale storeApi sampleSale (Some []) sampleWorld)) []
   \<and> bardanaBags (backend sampleWorld) = 100
   \<and> bardanaBags (backend (snd (updateStockOnSale storeApi sampleSale (Some []) sampleWorld))) = 95
   \<and> bardanaBags (backend (snd (updateStockOnSale storeApi sampleSale (Some [])
        (snd (updateStockOnSale storeApi sampleSale (Some []) sampleWorld))))) = 90
   \<and> catalog (backend (snd (updateStockOnSale storeApi sampleSale (Some []) sampleWorld))) =
        [rice\<lparr>openingStock := 7\<rparr>, wheat\<lparr>openingStock := 0\<rparr>, sugar]
   \<and> catalog (backend (snd (updateStockOnSale storeApi sampleSale (Some [])
        (snd (updateStockOnSale storeApi sampleSale (Some []) sampleWorld))))) =
        [rice\<lparr>openingStock := 4\<rparr>, wheat\<lparr>openingStock := 0\<rparr>, sugar]"
  by code_simp

text \<open>
  Claim C6, amended. For a transaction id that is not the empty string: if the id is
  already in the set of processed invoices, \<^verbatim>\<open>updateStockOnSale\<close> is a no-op, whatever the
  server (the state of the server, the set and the console are returned as they were, so no
  request was sent); and after a first completed call with a fresh id and a non-empty list,
  \<^verbatim>\<open>isInvoiceProcessed\<close> is true and a second call with the same id is such a no-op.
\<close>

theorem sale_applied_once:
  assumes "i \<noteq> []"
  shows "(i \<in> processedInvoices w \<longrightarrow>
            updateStockOnSale api soldItems (Some i) w = (Inr (), w))
         \<and> (soldItems \<noteq> [] \<and> i \<notin> processedInvoices w
              \<and> updateStockOnSale api soldItems (Some i) w = (Inr (), w1) \<longrightarrow>
              isInvoiceProcessed w1 i
              \<and> updateStockOnSale api soldItems (Some i) w1 = (Inr (), w1))"
proof -
  have skip: "updateStockOnSale api soldItems (Some i) w' = (Inr (), w')"
    if "i \<in> processedInvoices w'" for w'
    using that assms by (simp add: sale_skipped alreadyProcessed_def)
  have marked: "isInvoiceProcessed w1 i"
    if ne: "soldItems \<noteq> []" and fresh: "i \<notin> processedInvoices w"
      and ran: "updateStockOnSale api soldItems (Some i) w = (Inr (), w1)"
  proof -
    have f: "\<not> alreadyProcessed (Some i) w"
      using fresh by (simp add: alreadyProcessed_def)
    show ?thesis
    proof (cases rule: updateBardana_cases
        [of api subtract "totalQuantity soldItems" "backend w"])
      case (thrown e b1)
      then show ?thesis
        using ran by (simp add: sale_rethrows [OF ne f thrown])
    next
      case (passed b1)
      then show ?thesis
        using ran assms
        by (auto simp: sale_proceeds [OF ne f passed] markProcessed_def isInvoiceProcessed_def)
    qed
  qed
  show ?thesis
    using skip marked by (auto simp: isInvoiceProcessed_def)
qed

text \<open>
  The sample sale with the id \<^verbatim>\<open>INV-1\<close> on the reference server, run twice.
\<close>

theorem sale_applied_once_witness:
  "''INV-1'' \<noteq> [] \<and> sampleSale \<noteq> [] \<and> ''INV-1'' \<notin> processedInvoices sampleWorld
   \<and> updateStockOnSale storeApi sampleSale (Some ''INV-1'') sampleWorld = (Inr (), soldWorld)
   \<and> ''INV-1'' \<in> processedInvoices soldWorld
   \<and> isInvoiceProcessed soldWorld ''INV-1''
   \<and> updateStockOnSale storeApi sampleSale (Some ''INV-1'') soldWorld = (Inr (), soldWorld)"
proof -
  have h0: "''INV-1'' \<noteq> []"
    by simp
  have h1: "sampleSale \<noteq> [] \<and> ''INV-1'' \<notin> processedInvoices sampleWorld"
    by (simp add: sampleSale_def sampleWorld_def)
  have h2: "updateStockOnSale storeApi sampleSale (Some ''INV-1'') sampleWorld = (Inr (), soldWorld)"
    by code_simp
  have h3: "''INV-1'' \<in> processedInvoices soldWorld"
    by (simp add: soldWorld_def)
  show ?thesis
    using h0 h1 h2 h3
      sale_applied_once [OF h0, of sampleWorld storeApi sampleSale soldWorld]
      sale_applied_once [OF h0, of soldWorld storeApi sampleSale soldWorld]
    by simp
qed








text \<open>
  Claim C10, as stated, fails on the code for the transaction id that is the empty string:
  with a non-empty list, the Bardana request answered and every read of items rejected, the
  call completes, the set of processed ids stays empty, and a retry is not a no-op (the
  Bardana stock goes from 95 to 90 bags).
\<close>

theorem empty_invoice_id_not_marked_counterexample:
  "sampleSale \<noteq> [] \<and> [] \<notin> processedInvoices readsDownWorld
   \<and> fst (updateBardana storeApi subtract (totalQuantity sampleSale) (backend readsDownWorld)) = None
   \<and> fst (updateStockOnSale storeApi sampleSale (Some []) readsDownWorld) = Inr ()
   \<and> processedInvoices (snd (updateStockOnSale storeApi sampleSale (Some []) readsDownWorld)) = {}
   \<and> updateStockOnSale storeApi sampleSale (Some [])
         (snd (updateStockOnSale storeApi sampleSale (Some []) readsDownWorld)) \<noteq>
       (Inr (), snd (updateStockOnSale storeApi sampleSale (Some []) readsDownWorld))
   \<and> bardanaBags (backend (snd (updateStockOnSale storeApi sampleSale (Some []) readsDownWorld))) = 95
   \<and> bardanaBags (backend (snd (updateStockOnSale storeApi sampleSale (Some [])
         (snd (updateStockOnSale storeApi sampleSale (Some []) readsDownWorld))))) = 90"
  by code_simp

text \<open>
  Claim C10, amended. For a fresh transaction id that is not the empty string and a
  non-empty list: when the Bardana request is answered (or not needed), the call completes,
  the id is added to the set of processed ids whatever the server did with the reads and
  writes for the items, and a retry with the same id is a no-op; when the Bardana request
  is rejected, the call throws that error and the set of processed ids is unchanged.
\<close>

theorem sale_marks_invoice_unless_bardana_fails:
  assumes "i \<noteq> []" and "soldItems \<noteq> []" and "i \<notin> processedInvoices w"
  shows "(updateBardana api subtract (totalQuantity soldItems) (backend w) = (None, b1) \<longrightarrow>
            fst (updateStockOnSale api soldItems (Some i) w) = Inr ()
            \<and> processedInvoices (snd (updateStockOnSale api soldItems (Some i) w)) =
                insert i (processedInvoices w)
            \<and> updateStockOnSale api soldItems (Some i)
                  (snd (updateStockOnSale api soldItems (Some i) w)) =
                (Inr (), snd (updateStockOnSale api soldItems (Some i) w)))
         \<and> (updateBardana api subtract (totalQuantity soldItems) (backend w) = (Some e, b1) \<longrightarrow>
            fst (updateStockOnSale api soldItems (Some i) w) = Inl e
            \<and> processedInvoices (snd (updateStockOnSale api soldItems (Some i) w)) =
                processedInvoices w)"
proof -
  have f: "\<not> alreadyProcessed (Some i) w"
    using assms(3) by (simp add: alreadyProcessed_def)
  have applied: "fst (updateStockOnSale api soldItems (Some i) w) = Inr ()
            \<and> processedInvoices (snd (updateStockOnSale api soldItems (Some i) w)) =
                insert i (processedInvoices w)
            \<and> updateStockOnSale api soldItems (Some i)
                  (snd (updateStockOnSale api soldItems (Some i) w)) =
                (Inr (), snd (updateStockOnSale api soldItems (Some i) w))"
    if passed: "updateBardana api subtract (totalQuantity soldItems) (backend w) = (None, b1)"
  proof -
    let ?w1 = "snd (updateStockOnSale api soldItems (Some i) w)"
    have p: "processedInvoices ?w1 = insert i (processedInvoices w)"
      using assms(1)
      by (simp add: sale_proceeds [OF assms(2) f passed] markProcessed_def adjustItems_processed)
    then have "alreadyProcessed (Some i) ?w1"
      using assms(1) by (simp add: alreadyProcessed_def)
    then have "updateStockOnSale api soldItems (Some i) ?w1 = (Inr (), ?w1)"
      by (rule sale_skipped)
    then show ?thesis
      using p by (simp add: sale_proceeds [OF assms(2) f passed])
  qed
  have aborted: "fst (updateStockOnSale api soldItems (Some i) w) = Inl e
            \<and> processedInvoices (snd (updateStockOnSale api soldItems (Some i) w)) =
                processedInvoices w"
    if thrown: "updateBardana api subtract (totalQuantity soldItems) (backend w) = (Some e, b1)"
    by (simp add: sale_rethrows [OF assms(2) f thrown])
  show ?thesis
    using applied aborted by blast
qed

text \<open>
  On the reference server: with every read of items rejected the catalogue is untouched and
  \<^verbatim>\<open>INV-1\<close> is marked; with the Bardana request rejected the call throws and nothing is marked.
\<close>

theorem sale_marks_invoice_unless_bardana_fails_witness:
  "''INV-1'' \<noteq> [] \<and> sampleSale \<noteq> [] \<and> ''INV-1'' \<notin> processedInvoices readsDownWorld
   \<and> ''INV-1'' \<notin> processedInvoices bardanaDownWorld
   \<and> fst (updateStockOnSale storeApi sampleSale (Some ''INV-1'') readsDownWorld) = Inr ()
   \<and> catalog (backend (snd (updateStockOnSale storeApi sampleSale (Some ''INV-1'') readsDownWorld))) =
       [rice, wheat, sugar]
   \<and> processedInvoices (snd (updateStockOnSale storeApi sampleSale (Some ''INV-1'') readsDownWorld)) =
       {''INV-1''}
   \<and> updateStockOnSale storeApi sampleSale (Some ''INV-1'')
         (snd (updateStockOnSale storeApi sampleSale (Some ''INV-1'') readsDownWorld)) =
       (Inr (), snd (updateStockOnSale storeApi sampleSale (Some ''INV-1'') readsDownWorld))
   \<and> fst (updateStockOnSale storeApi sampleSale (Some ''INV-1'') bardanaDownWorld) = Inl ApiError
   \<and> processedInvoices (snd (updateStockOnSale storeApi sampleSale (Some ''INV-1'') bardanaDownWorld)) =
       {}"
proof -
  have h1: "''INV-1'' \<noteq> []"
    by simp
  have h2: "sampleSale \<noteq> []"
    by (simp add: sampleSale_def)
  have h3: "''INV-1'' \<notin> processedInvoices readsDownWorld"
    by (simp add: readsDownWorld_def sampleWorld_def)
  have h4: "''INV-1'' \<notin> processedInvoices bardanaDownWorld"
    by (simp add: bardanaDownWorld_def sampleWorld_def)
  have p: "updateBardana storeApi subtract (totalQuantity sampleSale) (backend readsDownWorld) =
             (None, (backend readsDownWorld)\<lparr>requests := [UpdateBardanaStock subtract 150],
                                             bardanaBags := 95\<rparr>)"
    by code_simp
  have t: "updateBardana storeApi subtract (totalQuantity sampleSale) (backend bardanaDownWorld) =
             (Some ApiError,
              (backend bardanaDownWorld)\<lparr>requests := [UpdateBardanaStock subtract 150]\<rparr>)"
    by code_simp
  have c: "catalog (backend (snd (updateStockOnSale storeApi sampleSale (Some ''INV-1'')
             readsDownWorld))) = [rice, wheat, sugar]"
    by code_simp
  have e1: "processedInvoices readsDownWorld = {}"
    by (simp add: readsDownWorld_def sampleWorld_def)
  have e2: "processedInvoices bardanaDownWorld = {}"
    by (simp add: bardanaDownWorld_def sampleWorld_def)
  show ?thesis
    using h1 h2 h3 h4 c e1 e2 p t
      sale_marks_invoice_unless_bardana_fails [OF h1 h2 h3, where api = storeApi
        and ?b1.0 = "(backend readsDownWorld)\<lparr>requests := [UpdateBardanaStock subtract 150],
                                             bardanaBags := 95\<rparr>"]
      sale_marks_invoice_unless_bardana_fails [OF h1 h2 h4, where api = storeApi and e = ApiError
        and ?b1.0 = "(backend bardanaDownWorld)\<lparr>requests := [UpdateBardanaStock subtract 150]\<rparr>"]
    by simp
qed

end
